theory Spec2Isabelle
  imports Complex_Main "HOL-Library.Word"
begin

unbundle bit_operations_syntax

section \<open>Data model\<close>

text \<open>
  A Go \<open>string\<close> is an immutable sequence of bytes and is modelled as a HOL
  \<open>string\<close> (a list of 8-bit characters); text outside ASCII appears as its
  UTF-8 bytes.  A Go \<open>[]byte\<close> is a list of 8-bit words.  Go's \<open>int\<close> is
  modelled as \<open>int\<close>; where the source does arithmetic that could leave the
  64-bit range the wrap-around is written out (\<open>go_int\<close>).  A \<open>float64\<close> is
  modelled by the real number it denotes (no NaN, exact arithmetic).
\<close>

type_synonym byte = "8 word"

definition bytes_of_string :: "string \<Rightarrow> byte list" where
  "bytes_of_string s = map of_char s"

definition go_int :: "int \<Rightarrow> int" where
  "go_int x = (x + 2 ^ 63) mod 2 ^ 64 - 2 ^ 63"

text \<open>Values a call path can abort with: panics, \<open>log.Fatal\<close> and returned errors.\<close>

datatype error =
    ErrorsNew string
  | KeySizeError nat
  | InvalidByteError char
  | ErrLength
  | Panic string
  | Fatal string

text \<open>
  \<open>defs.ServerType\<close>.  The source names \<open>defs.Perception\<close> and
  \<open>defs.WirelessSpeed\<close>; every other value takes the \<open>default\<close> branch of the
  switches and is the single constructor \<open>Standard\<close> here.
\<close>

datatype ServerType = Standard | Perception | WirelessSpeed

text \<open>
  \<open>defs.Server\<close>, with the fields the source reads or writes whose types it
  fixes.  The functions below are stated on the record scheme, so any further
  field (such as \<open>Port\<close>) lives in the extension part.
\<close>

record Server =
  ID :: int
  Name :: string
  IP :: string
  IPv6 :: string
  URL :: string
  URLv6 :: string
  DownloadURL :: string
  Province :: string
  City :: string
  ISP :: string
  Type :: ServerType
  NoICMP :: bool

text \<open>\<open>defs.ProvinceInfo\<close>, fields as in the literal of \<open>getProvInfo\<close>.\<close>

record ProvinceInfo =
  ProvID :: string
  Code :: string
  Short :: string
  ProvName :: string
  Lon :: string
  Lat :: string

section \<open>String helpers of the Go library used by the filters\<close>

text \<open>\<open>strings.HasPrefix\<close> and \<open>strings.Contains\<close> on byte strings.\<close>

fun HasPrefix :: "string \<Rightarrow> string \<Rightarrow> bool" where
  "HasPrefix s [] = True"
| "HasPrefix [] (p # ps) = False"
| "HasPrefix (c # s) (p # ps) = (c = p \<and> HasPrefix s ps)"

fun Contains :: "string \<Rightarrow> string \<Rightarrow> bool" where
  "Contains [] substr = (substr = [])"
| "Contains (c # s) substr = (HasPrefix (c # s) substr \<or> Contains s substr)"

text \<open>\<open>strconv.Itoa\<close>: the decimal digits, with a leading minus sign.\<close>

definition digit_char :: "nat \<Rightarrow> char" where
  "digit_char d = char_of (48 + d)"

function decimal :: "nat \<Rightarrow> string" where
  "decimal n = (if n < 10 then [digit_char n] else decimal (n div 10) @ [digit_char (n mod 10)])"
  by pat_completeness auto
termination
  by (relation "measure id") auto

definition Itoa :: "int \<Rightarrow> string" where
  "Itoa i = (if i < 0 then CHR ''-'' # decimal (nat (- i)) else decimal (nat i))"

section \<open>Server filtering\<close>

text \<open>\<open>contains\<close>: is a string in a string array.\<close>

fun contains :: "string list \<Rightarrow> string \<Rightarrow> bool" where
  "contains [] val = False"
| "contains (v # arr) val = (if v = val then True else contains arr val)"

text \<open>\<open>checkProv\<close>: the loop returns at the first entry that matches.\<close>

fun checkProv :: "'a ProvinceInfo_scheme list \<Rightarrow> string \<Rightarrow> bool" where
  "checkProv [] val = False"
| "checkProv (v # arr) val =
     (if Short v = val \<or> ProvName v = val \<or> Contains val (Short v) then True
      else checkProv arr val)"

text \<open>
  The filter key computed in both loops of \<open>preprocessServers\<close>:
  \<open>fmt.Sprintf("P%d", id)\<close>, \<open>fmt.Sprintf("W%d", id)\<close> or \<open>strconv.Itoa(id)\<close>.
\<close>

definition filterKey :: "'a Server_scheme \<Rightarrow> string" where
  "filterKey server =
     (case Type server of
        Perception \<Rightarrow> ''P'' @ Itoa (ID server)
      | WirelessSpeed \<Rightarrow> ''W'' @ Itoa (ID server)
      | Standard \<Rightarrow> Itoa (ID server))"

text \<open>The loop over \<open>servers\<close> under \<open>len(excludes) > 0\<close>.\<close>

fun excludeLoop :: "string list \<Rightarrow> 'a Server_scheme list \<Rightarrow> 'a Server_scheme list" where
  "excludeLoop excludes [] = []"
| "excludeLoop excludes (server # servers) =
     (if contains excludes (filterKey server) then excludeLoop excludes servers
      else server # excludeLoop excludes servers)"

text \<open>The loop over \<open>servers\<close> under \<open>len(specific) > 0\<close> without the sentinel.\<close>

fun specificLoop :: "string list \<Rightarrow> 'a Server_scheme list \<Rightarrow> 'a Server_scheme list" where
  "specificLoop specific [] = []"
| "specificLoop specific (server # servers) =
     (if contains specific (filterKey server) then server # specificLoop specific servers
      else specificLoop specific servers)"

definition preprocessServers ::
  "'a Server_scheme list \<Rightarrow> string list \<Rightarrow> string list \<Rightarrow> bool \<Rightarrow> error + 'a Server_scheme list" where
  "preprocessServers servers excludes specific filter' =
     (if length excludes > 0 \<and> length specific > 0
      then Inl (ErrorsNew ''either --exclude or --specific can be used'')
      else if filter' \<and> length excludes > 0
      then Inr (excludeLoop excludes servers)
      else if filter' \<and> length specific > 0 \<and> \<not> contains specific ''-1''
      then Inr (specificLoop specific servers)
      else Inr servers)"

section \<open>Filtering: exclusivity and the sentinel\<close>

text \<open>
  C7.  With both the excludes list and the specific list non-empty,
  \<open>preprocessServers\<close> returns the configuration error and no server list,
  for every server list and for both values of the filter flag.
\<close>

theorem preprocessServers_exclusive:
  assumes "excludes \<noteq> []" and "specific \<noteq> []"
  shows "preprocessServers servers excludes specific filter' =
           Inl (ErrorsNew ''either --exclude or --specific can be used'')"
  using assms by (simp add: preprocessServers_def)

theorem preprocessServers_exclusive_witness:
  "[''3''] \<noteq> [] \<and> [''P7'', ''-1''] \<noteq> [] \<and>
   preprocessServers
     [\<lparr>ID = 3, Name = ''a'', IP = ''10.0.0.1'', IPv6 = '''', URL = '''', URLv6 = '''',
       DownloadURL = '''', Province = '''', City = '''', ISP = '''', Type = Standard,
       NoICMP = False\<rparr>]
     [''3''] [''P7'', ''-1''] False
   = Inl (ErrorsNew ''either --exclude or --specific can be used'')"
  using preprocessServers_exclusive [of "[''3'']" "[''P7'', ''-1'']" _ False]
  by simp

text \<open>
  C8.  With filtering enabled, no excludes and a specific list that contains
  \<open>-1\<close>, \<open>preprocessServers\<close> returns the input list itself, whatever else the
  specific list holds.
\<close>

lemma contains_iff: "contains arr val \<longleftrightarrow> val \<in> set arr"
  by (induction arr) auto

theorem preprocessServers_sentinel:
  assumes "''-1'' \<in> set specific"
  shows "preprocessServers servers [] specific True = Inr servers"
  using assms by (simp add: preprocessServers_def contains_iff)

theorem preprocessServers_sentinel_witness:
  "''-1'' \<in> set [''P7'', ''-1'', ''12''] \<and>
   preprocessServers
     [\<lparr>ID = 3, Name = ''a'', IP = ''10.0.0.1'', IPv6 = '''', URL = '''', URLv6 = '''',
       DownloadURL = '''', Province = '''', City = '''', ISP = '''', Type = Standard,
       NoICMP = False\<rparr>]
     [] [''P7'', ''-1'', ''12''] True
   = Inr [\<lparr>ID = 3, Name = ''a'', IP = ''10.0.0.1'', IPv6 = '''', URL = '''', URLv6 = '''',
       DownloadURL = '''', Province = '''', City = '''', ISP = '''', Type = Standard,
       NoICMP = False\<rparr>]"
  using preprocessServers_sentinel [of "[''P7'', ''-1'', ''12'']"]
  by simp

end
